theory Spec2Isabelle
  imports Main "HOL-Library.Word"
begin

section \<open>Profiler configuration of sf-go-profiler\<close>

text \<open>
  The repository holds two variants of the same Go package \<^verbatim>\<open>profiler\<close>:
  \<^verbatim>\<open>src/profiler/config.go\<close> and \<^verbatim>\<open>src/unnamed/part_000\<close>. Both declare the
  profile-type tags, the package defaults, the \<^verbatim>\<open>Config\<close> struct and its builder methods.
  The first variant is embedded under the source's names; the names of the second carry
  the suffix \<open>_p0\<close>.

  Go methods on \<^verbatim>\<open>*Config\<close> mutate the struct in place; here each takes the
  configuration and returns the updated one. None of the builder methods returns an error
  or can panic, so each is a total function into the configuration type.
\<close>

subsection \<open>Profile-type tags and package defaults\<close>

definition cpu :: string where "cpu = ''cpu''"
definition heap :: string where "heap = ''heap''"
definition block :: string where "block = ''block''"
definition mutex :: string where "mutex = ''mutex''"
definition goroutine :: string where "goroutine = ''goroutine''"
definition allocs :: string where "allocs = ''allocs''"
definition threadcreate :: string where "threadcreate = ''threadcreate''"
definition metrics :: string where "metrics = ''metrics''"

text \<open>
  \<^verbatim>\<open>time.Duration\<close> is an \<^verbatim>\<open>int64\<close> count of nanoseconds; its arithmetic wraps.
\<close>

type_synonym Duration = "64 word"

definition Second :: Duration where
  "Second = 1000000000"

definition DefaultProfilesDir :: string where
  "DefaultProfilesDir = ''./profiles''"

definition DefaultProfilesAge :: Duration where
  "DefaultProfilesAge = 900 * Second"

definition DefaultAgentURL :: string where
  "DefaultAgentURL = ''http://127.0.0.1:8586/profile''"

definition DefaultCPUProfileDuration :: Duration where
  "DefaultCPUProfileDuration = 10 * Second"

definition DefaultProfileInterval :: Duration where
  "DefaultProfileInterval = 60 * Second"

text \<open>
  The slices \<^verbatim>\<open>allProfiles\<close> and \<^verbatim>\<open>defaultProfiles\<close> are built by slice literals, so
  their length equals their capacity and every \<^verbatim>\<open>append\<close> to them copies into a fresh
  array: no builder method writes through to the package-level slices. Slices are
  therefore lists with value semantics.
\<close>

definition allProfiles :: "string list" where
  "allProfiles = [threadcreate, block, mutex, goroutine, allocs, heap, cpu]"

definition defaultProfiles :: "string list" where
  "defaultProfiles = [heap, cpu]"

definition allProfiles_p0 :: "string list" where
  "allProfiles_p0 = [cpu, heap, block, mutex, goroutine, allocs, threadcreate]"

definition defaultProfiles_p0 :: "string list" where
  "defaultProfiles_p0 = [cpu, heap]"

subsection \<open>Payload types and channels\<close>

text \<open>
  \<^verbatim>\<open>runtime.MemStats\<close> belongs to the Go runtime; a log function and a
  \<^verbatim>\<open>context.CancelFunc\<close> are function values: all three stay opaque.
\<close>

typedecl MemStats
typedecl logfunc
typedecl CancelFunc

record commonData =
  Timestamp :: "64 word"
  Type :: string
  PID :: int
  Service :: string
  GoVersion :: string
  Hostname :: string

record profileData = commonData +
  Data :: "8 word list"

record metricsData = commonData +
  NumGoroutines :: int
  MemStats :: MemStats

text \<open>
  Modelled from the spec: the struct \<^verbatim>\<open>pprofData\<close>, the element type of the output
  channel of \<^verbatim>\<open>src/unnamed/part_000\<close>, whose declaration is in none of the source
  files. The fields are those of the specification's captured artifact: capture time,
  profile type, process id, service name, runtime version, host name and the opaque
  payload.
\<close>

record pprofData =
  timestamp :: "64 word"
  profileType :: string
  processID :: int
  serviceName :: string
  runtimeVersion :: string
  hostname :: string
  payload :: "8 word list"

text \<open>
  A buffered Go channel \<^verbatim>\<open>make(chan T, n)\<close>: a first-in-first-out buffer of at most
  \<open>n\<close> elements. A send on a full buffer blocks the sender (\<open>None\<close>), a receive takes
  the oldest element.
\<close>

record 'a chan =
  chan_cap :: nat
  chan_buf :: "'a list"

definition make_chan :: "nat \<Rightarrow> 'a chan" where
  "make_chan n = \<lparr>chan_cap = n, chan_buf = []\<rparr>"

definition chan_send :: "'a chan \<Rightarrow> 'a \<Rightarrow> 'a chan option" where
  "chan_send ch x =
     (if length (chan_buf ch) < chan_cap ch
      then Some (ch\<lparr>chan_buf := chan_buf ch @ [x]\<rparr>)
      else None)"

definition chan_recv :: "'a chan \<Rightarrow> ('a \<times> 'a chan) option" where
  "chan_recv ch =
     (case chan_buf ch of
        [] \<Rightarrow> None
      | x # xs \<Rightarrow> Some (x, ch\<lparr>chan_buf := xs\<rparr>))"

fun chan_send_all :: "'a chan \<Rightarrow> 'a list \<Rightarrow> 'a chan option" where
  "chan_send_all ch [] = Some ch"
| "chan_send_all ch (x # xs) =
     (case chan_send ch x of None \<Rightarrow> None | Some ch' \<Rightarrow> chan_send_all ch' xs)"

subsection \<open>The configuration of \<^verbatim>\<open>src/profiler/config.go\<close>\<close>

text \<open>
  The log function is either the package's \<^verbatim>\<open>defaultlogf\<close> or one supplied by the
  caller; the cancel function is \<^verbatim>\<open>nil\<close> until the profiler is started.
\<close>

datatype logfn = defaultlogf | userlogf logfunc

record Config =
  duration :: Duration
  interval :: Duration
  profileTypes :: "string list"
  cancel :: "CancelFunc option"
  outProfile :: "profileData chan"
  outMetrics :: "metricsData chan"
  service :: string
  dumpToFile :: bool
  targetURL :: string
  customTarget :: bool
  logf :: logfn

definition NewProfilerConfig :: "string \<Rightarrow> Config" where
  "NewProfilerConfig s =
     \<lparr>duration = DefaultCPUProfileDuration,
      interval = DefaultProfileInterval,
      profileTypes = defaultProfiles,
      cancel = None,
      outProfile = make_chan (length allProfiles + 1),
      outMetrics = make_chan 1,
      service = s,
      dumpToFile = False,
      targetURL = DefaultAgentURL,
      customTarget = False,
      logf = defaultlogf\<rparr>"

text \<open>
  \<^verbatim>\<open>SetInterval(i int)\<close> and \<^verbatim>\<open>SetCPUProfileDuration(i int)\<close> convert \<open>i\<close> to
  \<^verbatim>\<open>time.Duration\<close> (on a 64-bit platform \<^verbatim>\<open>int\<close> is \<^verbatim>\<open>int64\<close>) and multiply by
  \<^verbatim>\<open>time.Second\<close> in wrapping 64-bit arithmetic.
\<close>

definition SetInterval :: "64 word \<Rightarrow> Config \<Rightarrow> Config" where
  "SetInterval i cfg = cfg\<lparr>interval := i * Second\<rparr>"

definition SetCPUProfileDuration :: "64 word \<Rightarrow> Config \<Rightarrow> Config" where
  "SetCPUProfileDuration i cfg = cfg\<lparr>duration := i * Second\<rparr>"

definition EnableBlockProfile :: "Config \<Rightarrow> Config" where
  "EnableBlockProfile cfg = cfg\<lparr>profileTypes := profileTypes cfg @ [block]\<rparr>"

definition EnableMutexProfile :: "Config \<Rightarrow> Config" where
  "EnableMutexProfile cfg = cfg\<lparr>profileTypes := profileTypes cfg @ [mutex]\<rparr>"

definition EnableGoRoutineProfile :: "Config \<Rightarrow> Config" where
  "EnableGoRoutineProfile cfg = cfg\<lparr>profileTypes := profileTypes cfg @ [goroutine]\<rparr>"

definition EnableThreadCreateProfile :: "Config \<Rightarrow> Config" where
  "EnableThreadCreateProfile cfg = cfg\<lparr>profileTypes := profileTypes cfg @ [threadcreate]\<rparr>"

definition EnableAllProfiles :: "Config \<Rightarrow> Config" where
  "EnableAllProfiles cfg = cfg\<lparr>profileTypes := allProfiles\<rparr>"

definition WriteProfileToFile :: "Config \<Rightarrow> Config" where
  "WriteProfileToFile cfg = cfg\<lparr>dumpToFile := True\<rparr>"

definition SetTargetURL :: "string \<Rightarrow> Config \<Rightarrow> Config" where
  "SetTargetURL url cfg = cfg\<lparr>customTarget := True, targetURL := url\<rparr>"

definition SetLogger :: "logfn \<Rightarrow> Config \<Rightarrow> Config" where
  "SetLogger f cfg = cfg\<lparr>logf := f\<rparr>"

subsection \<open>The configuration of \<^verbatim>\<open>src/unnamed/part_000\<close>\<close>

text \<open>
  The second variant has a single output channel \<^verbatim>\<open>out\<close> and no \<^verbatim>\<open>metrics\<close> tag;
  its catalog and default slices list the same tags in another order.
\<close>

record Config_p0 =
  duration_p0 :: Duration
  interval_p0 :: Duration
  profileTypes_p0 :: "string list"
  cancel_p0 :: "CancelFunc option"
  out_p0 :: "pprofData chan"
  service_p0 :: string
  dumpToFile_p0 :: bool
  targetURL_p0 :: string
  customTarget_p0 :: bool
  logf_p0 :: logfn

definition NewProfilerConfig_p0 :: "string \<Rightarrow> Config_p0" where
  "NewProfilerConfig_p0 s =
     \<lparr>duration_p0 = DefaultCPUProfileDuration,
      interval_p0 = DefaultProfileInterval,
      profileTypes_p0 = defaultProfiles_p0,
      cancel_p0 = None,
      out_p0 = make_chan (length allProfiles_p0 + 1),
      service_p0 = s,
      dumpToFile_p0 = False,
      targetURL_p0 = DefaultAgentURL,
      customTarget_p0 = False,
      logf_p0 = defaultlogf\<rparr>"

definition SetInterval_p0 :: "64 word \<Rightarrow> Config_p0 \<Rightarrow> Config_p0" where
  "SetInterval_p0 i cfg = cfg\<lparr>interval_p0 := i * Second\<rparr>"

definition SetCPUProfileDuration_p0 :: "64 word \<Rightarrow> Config_p0 \<Rightarrow> Config_p0" where
  "SetCPUProfileDuration_p0 i cfg = cfg\<lparr>duration_p0 := i * Second\<rparr>"

definition EnableBlockProfile_p0 :: "Config_p0 \<Rightarrow> Config_p0" where
  "EnableBlockProfile_p0 cfg = cfg\<lparr>profileTypes_p0 := profileTypes_p0 cfg @ [block]\<rparr>"

definition EnableMutexProfile_p0 :: "Config_p0 \<Rightarrow> Config_p0" where
  "EnableMutexProfile_p0 cfg = cfg\<lparr>profileTypes_p0 := profileTypes_p0 cfg @ [mutex]\<rparr>"

definition EnableGoRoutineProfile_p0 :: "Config_p0 \<Rightarrow> Config_p0" where
  "EnableGoRoutineProfile_p0 cfg =
     cfg\<lparr>profileTypes_p0 := profileTypes_p0 cfg @ [goroutine]\<rparr>"

definition EnableThreadCreateProfile_p0 :: "Config_p0 \<Rightarrow> Config_p0" where
  "EnableThreadCreateProfile_p0 cfg =
     cfg\<lparr>profileTypes_p0 := profileTypes_p0 cfg @ [threadcreate]\<rparr>"

definition EnableAllProfiles_p0 :: "Config_p0 \<Rightarrow> Config_p0" where
  "EnableAllProfiles_p0 cfg = cfg\<lparr>profileTypes_p0 := allProfiles_p0\<rparr>"

definition WriteProfileToFile_p0 :: "Config_p0 \<Rightarrow> Config_p0" where
  "WriteProfileToFile_p0 cfg = cfg\<lparr>dumpToFile_p0 := True\<rparr>"

definition SetTargetURL_p0 :: "string \<Rightarrow> Config_p0 \<Rightarrow> Config_p0" where
  "SetTargetURL_p0 url cfg = cfg\<lparr>customTarget_p0 := True, targetURL_p0 := url\<rparr>"

definition SetLogger_p0 :: "logfn \<Rightarrow> Config_p0 \<Rightarrow> Config_p0" where
  "SetLogger_p0 f cfg = cfg\<lparr>logf_p0 := f\<rparr>"

subsection \<open>File names of written profiles\<close>

text \<open>
  Modelled from the spec: the file sink and the retention sweeper, which are in none of
  the source files. The source only documents the name, on \<^verbatim>\<open>WriteProfileToFile\<close>:
  ``writes all collected profiles to file to DefaultProfilesDir directory, with file name
  formatted as service_timestamp_pid.profiletype''; the specification gives the
  convention \<^verbatim>\<open>{service}_{unixTimestamp}_{pid}.{profileType}\<close> under the directory and
  says that the sweeper parses it. Timestamp and process id are printed in decimal, as
  Go prints integers; the parser reads a name from its end: the profile type follows
  the last dot, the process id and the timestamp follow the last two underscores before
  it, and the rest is the service name.
\<close>

definition digit_char :: "nat \<Rightarrow> char" where
  "digit_char d = char_of (48 + d)"

fun show_nat :: "nat \<Rightarrow> string" where
  "show_nat n =
     (if n < 10 then [digit_char n] else show_nat (n div 10) @ [digit_char (n mod 10)])"

declare show_nat.simps [simp del]

definition show_int :: "int \<Rightarrow> string" where
  "show_int i = (if i < 0 then CHR ''-'' # show_nat (nat (- i)) else show_nat (nat i))"

definition profile_file_name :: "string \<Rightarrow> int \<Rightarrow> int \<Rightarrow> string \<Rightarrow> string" where
  "profile_file_name svc ts pid pt =
     svc @ ''_'' @ show_int ts @ ''_'' @ show_int pid @ ''.'' @ pt"

definition profile_file_path :: "string \<Rightarrow> int \<Rightarrow> int \<Rightarrow> string \<Rightarrow> string" where
  "profile_file_path svc ts pid pt =
     DefaultProfilesDir @ ''/'' @ profile_file_name svc ts pid pt"

definition digit_val :: "char \<Rightarrow> nat option" where
  "digit_val c =
     (if 48 \<le> (of_char c :: nat) \<and> (of_char c :: nat) \<le> 57
      then Some (of_char c - 48) else None)"

fun read_digits :: "nat \<Rightarrow> string \<Rightarrow> nat option" where
  "read_digits a [] = Some a"
| "read_digits a (c # cs) =
     (case digit_val c of None \<Rightarrow> None | Some d \<Rightarrow> read_digits (10 * a + d) cs)"

definition read_nat :: "string \<Rightarrow> nat option" where
  "read_nat s = (if s = [] then None else read_digits 0 s)"

definition read_int :: "string \<Rightarrow> int option" where
  "read_int s =
     (if s \<noteq> [] \<and> hd s = CHR ''-''
      then map_option (\<lambda>n. - int n) (read_nat (tl s))
      else map_option int (read_nat s))"

fun split_last :: "char \<Rightarrow> string \<Rightarrow> (string \<times> string) option" where
  "split_last c [] = None"
| "split_last c (x # xs) =
     (case split_last c xs of
        Some (a, b) \<Rightarrow> Some (x # a, b)
      | None \<Rightarrow> if x = c then Some ([], xs) else None)"

definition parse_file_name :: "string \<Rightarrow> (string \<times> int \<times> int \<times> string) option" where
  "parse_file_name name =
     (case split_last (CHR ''.'') name of
        None \<Rightarrow> None
      | Some (stem, pt) \<Rightarrow>
          (case split_last (CHR ''_'') stem of
             None \<Rightarrow> None
           | Some (front, pidstr) \<Rightarrow>
               (case split_last (CHR ''_'') front of
                  None \<Rightarrow> None
                | Some (svc, tsstr) \<Rightarrow>
                    (case read_int tsstr of
                       None \<Rightarrow> None
                     | Some ts \<Rightarrow>
                         (case read_int pidstr of
                            None \<Rightarrow> None
                          | Some pid \<Rightarrow> Some (svc, ts, pid, pt))))))"








section \<open>Properties\<close>

subsection \<open>The catalog\<close>

lemmas tag_defs =
  cpu_def heap_def block_def mutex_def goroutine_def allocs_def threadcreate_def metrics_def

lemma set_allProfiles:
  "set allProfiles = {cpu, heap, block, mutex, goroutine, allocs, threadcreate}"
  by (auto simp: allProfiles_def)

lemma set_allProfiles_p0:
  "set allProfiles_p0 = {cpu, heap, block, mutex, goroutine, allocs, threadcreate}"
  by (auto simp: allProfiles_p0_def)

lemma distinct_allProfiles: "distinct allProfiles"
  by (simp add: allProfiles_def tag_defs)

lemma distinct_allProfiles_p0: "distinct allProfiles_p0"
  by (simp add: allProfiles_p0_def tag_defs)

text \<open>
  C4. After \<^verbatim>\<open>EnableAllProfiles\<close> the enabled profile types are exactly the seven tags
  cpu, heap, block, mutex, goroutine, allocs and threadcreate, each listed once, whatever
  was enabled before; this holds in both variants.
\<close>

theorem EnableAllProfiles_catalog:
  "set (profileTypes (EnableAllProfiles cfg)) =
     {cpu, heap, block, mutex, goroutine, allocs, threadcreate}
   \<and> distinct (profileTypes (EnableAllProfiles cfg))
   \<and> length (profileTypes (EnableAllProfiles cfg)) = 7
   \<and> set (profileTypes_p0 (EnableAllProfiles_p0 cfg0)) =
     {cpu, heap, block, mutex, goroutine, allocs, threadcreate}
   \<and> distinct (profileTypes_p0 (EnableAllProfiles_p0 cfg0))
   \<and> length (profileTypes_p0 (EnableAllProfiles_p0 cfg0)) = 7"
proof -
  have "length allProfiles = 7" "length allProfiles_p0 = 7"
    by (simp_all add: allProfiles_def allProfiles_p0_def)
  then show ?thesis
    by (simp add: EnableAllProfiles_def EnableAllProfiles_p0_def set_allProfiles
        set_allProfiles_p0 distinct_allProfiles distinct_allProfiles_p0)
qed

text \<open>
  C5. \<^verbatim>\<open>EnableAllProfiles\<close> is idempotent: a second call leaves the configuration, and
  so its enabled profile set, as the first call left it; this holds in both variants.
\<close>

theorem EnableAllProfiles_idem:
  "EnableAllProfiles (EnableAllProfiles cfg) = EnableAllProfiles cfg
   \<and> set (profileTypes (EnableAllProfiles (EnableAllProfiles cfg))) =
     set (profileTypes (EnableAllProfiles cfg))
   \<and> EnableAllProfiles_p0 (EnableAllProfiles_p0 cfg0) = EnableAllProfiles_p0 cfg0
   \<and> set (profileTypes_p0 (EnableAllProfiles_p0 (EnableAllProfiles_p0 cfg0))) =
     set (profileTypes_p0 (EnableAllProfiles_p0 cfg0))"
  by (simp add: EnableAllProfiles_def EnableAllProfiles_p0_def)

subsection \<open>Enabling single profile types\<close>

lemma remdups_snoc_twice: "remdups (xs @ [x, x]) = remdups (xs @ [x])"
  by (induction xs) auto

text \<open>
  C7. Each of \<^verbatim>\<open>EnableBlockProfile\<close>, \<^verbatim>\<open>EnableMutexProfile\<close>,
  \<^verbatim>\<open>EnableGoRoutineProfile\<close> and \<^verbatim>\<open>EnableThreadCreateProfile\<close> appends its tag to
  the slice of enabled types: the enabled set afterwards is the set before with the tag
  added, so the tag is enabled and nothing that was enabled is removed or replaced; this
  holds in both variants.
\<close>

theorem Enable_appends:
  "profileTypes (EnableBlockProfile cfg) = profileTypes cfg @ [block]
   \<and> profileTypes (EnableMutexProfile cfg) = profileTypes cfg @ [mutex]
   \<and> profileTypes (EnableGoRoutineProfile cfg) = profileTypes cfg @ [goroutine]
   \<and> profileTypes (EnableThreadCreateProfile cfg) = profileTypes cfg @ [threadcreate]
   \<and> set (profileTypes (EnableBlockProfile cfg)) = insert block (set (profileTypes cfg))
   \<and> set (profileTypes (EnableMutexProfile cfg)) = insert mutex (set (profileTypes cfg))
   \<and> set (profileTypes (EnableGoRoutineProfile cfg)) =
       insert goroutine (set (profileTypes cfg))
   \<and> set (profileTypes (EnableThreadCreateProfile cfg)) =
       insert threadcreate (set (profileTypes cfg))
   \<and> profileTypes_p0 (EnableBlockProfile_p0 cfg0) = profileTypes_p0 cfg0 @ [block]
   \<and> profileTypes_p0 (EnableMutexProfile_p0 cfg0) = profileTypes_p0 cfg0 @ [mutex]
   \<and> profileTypes_p0 (EnableGoRoutineProfile_p0 cfg0) = profileTypes_p0 cfg0 @ [goroutine]
   \<and> profileTypes_p0 (EnableThreadCreateProfile_p0 cfg0) =
       profileTypes_p0 cfg0 @ [threadcreate]
   \<and> set (profileTypes_p0 (EnableBlockProfile_p0 cfg0)) =
       insert block (set (profileTypes_p0 cfg0))
   \<and> set (profileTypes_p0 (EnableMutexProfile_p0 cfg0)) =
       insert mutex (set (profileTypes_p0 cfg0))
   \<and> set (profileTypes_p0 (EnableGoRoutineProfile_p0 cfg0)) =
       insert goroutine (set (profileTypes_p0 cfg0))
   \<and> set (profileTypes_p0 (EnableThreadCreateProfile_p0 cfg0)) =
       insert threadcreate (set (profileTypes_p0 cfg0))"
  by (simp add: EnableBlockProfile_def EnableMutexProfile_def EnableGoRoutineProfile_def
      EnableThreadCreateProfile_def EnableBlockProfile_p0_def EnableMutexProfile_p0_def
      EnableGoRoutineProfile_p0_def EnableThreadCreateProfile_p0_def)

text \<open>
  C2. Calling one of the four single-type enable operations twice gives the same enabled
  set as calling it once, both as a set and as the slice with duplicates removed; this
  holds in both variants. (The slice itself holds the tag once more after the second
  call.)
\<close>

theorem Enable_twice_same_set:
  "set (profileTypes (EnableBlockProfile (EnableBlockProfile cfg))) =
     set (profileTypes (EnableBlockProfile cfg))
   \<and> set (profileTypes (EnableMutexProfile (EnableMutexProfile cfg))) =
     set (profileTypes (EnableMutexProfile cfg))
   \<and> set (profileTypes (EnableGoRoutineProfile (EnableGoRoutineProfile cfg))) =
     set (profileTypes (EnableGoRoutineProfile cfg))
   \<and> set (profileTypes (EnableThreadCreateProfile (EnableThreadCreateProfile cfg))) =
     set (profileTypes (EnableThreadCreateProfile cfg))
   \<and> remdups (profileTypes (EnableBlockProfile (EnableBlockProfile cfg))) =
     remdups (profileTypes (EnableBlockProfile cfg))
   \<and> remdups (profileTypes (EnableMutexProfile (EnableMutexProfile cfg))) =
     remdups (profileTypes (EnableMutexProfile cfg))
   \<and> remdups (profileTypes (EnableGoRoutineProfile (EnableGoRoutineProfile cfg))) =
     remdups (profileTypes (EnableGoRoutineProfile cfg))
   \<and> remdups (profileTypes (EnableThreadCreateProfile (EnableThreadCreateProfile cfg))) =
     remdups (profileTypes (EnableThreadCreateProfile cfg))
   \<and> set (profileTypes_p0 (EnableBlockProfile_p0 (EnableBlockProfile_p0 cfg0))) =
     set (profileTypes_p0 (EnableBlockProfile_p0 cfg0))
   \<and> set (profileTypes_p0 (EnableMutexProfile_p0 (EnableMutexProfile_p0 cfg0))) =
     set (profileTypes_p0 (EnableMutexProfile_p0 cfg0))
   \<and> set (profileTypes_p0 (EnableGoRoutineProfile_p0 (EnableGoRoutineProfile_p0 cfg0))) =
     set (profileTypes_p0 (EnableGoRoutineProfile_p0 cfg0))
   \<and> set (profileTypes_p0
            (EnableThreadCreateProfile_p0 (EnableThreadCreateProfile_p0 cfg0))) =
     set (profileTypes_p0 (EnableThreadCreateProfile_p0 cfg0))
   \<and> remdups (profileTypes_p0 (EnableBlockProfile_p0 (EnableBlockProfile_p0 cfg0))) =
     remdups (profileTypes_p0 (EnableBlockProfile_p0 cfg0))
   \<and> remdups (profileTypes_p0 (EnableMutexProfile_p0 (EnableMutexProfile_p0 cfg0))) =
     remdups (profileTypes_p0 (EnableMutexProfile_p0 cfg0))
   \<and> remdups (profileTypes_p0
                (EnableGoRoutineProfile_p0 (EnableGoRoutineProfile_p0 cfg0))) =
     remdups (profileTypes_p0 (EnableGoRoutineProfile_p0 cfg0))
   \<and> remdups (profileTypes_p0
                (EnableThreadCreateProfile_p0 (EnableThreadCreateProfile_p0 cfg0))) =
     remdups (profileTypes_p0 (EnableThreadCreateProfile_p0 cfg0))"
  by (simp add: EnableBlockProfile_def EnableMutexProfile_def EnableGoRoutineProfile_def
      EnableThreadCreateProfile_def EnableBlockProfile_p0_def EnableMutexProfile_p0_def
      EnableGoRoutineProfile_p0_def EnableThreadCreateProfile_p0_def remdups_snoc_twice)

lemma Enable_twice_slice_grows:
  "length (profileTypes (EnableBlockProfile (EnableBlockProfile cfg))) =
     length (profileTypes (EnableBlockProfile cfg)) + 1"
  by (simp add: EnableBlockProfile_def)

subsection \<open>Frame of the target and file-output setters\<close>

text \<open>
  C9. \<^verbatim>\<open>SetTargetURL(u)\<close> stores \<open>u\<close> as target URL, marks the target as custom and
  leaves the service, the interval, the CPU duration, the enabled types, the file-output
  flag, the log function, the cancel function and the channels as they were.
  \<^verbatim>\<open>WriteProfileToFile\<close> sets the file-output flag and leaves every other field as it
  was. Both hold in both variants.
\<close>

theorem SetTargetURL_WriteProfileToFile_frame:
  "targetURL (SetTargetURL u cfg) = u
   \<and> customTarget (SetTargetURL u cfg) = True
   \<and> service (SetTargetURL u cfg) = service cfg
   \<and> interval (SetTargetURL u cfg) = interval cfg
   \<and> duration (SetTargetURL u cfg) = duration cfg
   \<and> profileTypes (SetTargetURL u cfg) = profileTypes cfg
   \<and> dumpToFile (SetTargetURL u cfg) = dumpToFile cfg
   \<and> logf (SetTargetURL u cfg) = logf cfg
   \<and> cancel (SetTargetURL u cfg) = cancel cfg
   \<and> outProfile (SetTargetURL u cfg) = outProfile cfg
   \<and> outMetrics (SetTargetURL u cfg) = outMetrics cfg
   \<and> dumpToFile (WriteProfileToFile cfg) = True
   \<and> targetURL (WriteProfileToFile cfg) = targetURL cfg
   \<and> customTarget (WriteProfileToFile cfg) = customTarget cfg
   \<and> service (WriteProfileToFile cfg) = service cfg
   \<and> interval (WriteProfileToFile cfg) = interval cfg
   \<and> duration (WriteProfileToFile cfg) = duration cfg
   \<and> profileTypes (WriteProfileToFile cfg) = profileTypes cfg
   \<and> logf (WriteProfileToFile cfg) = logf cfg
   \<and> cancel (WriteProfileToFile cfg) = cancel cfg
   \<and> outProfile (WriteProfileToFile cfg) = outProfile cfg
   \<and> outMetrics (WriteProfileToFile cfg) = outMetrics cfg
   \<and> targetURL_p0 (SetTargetURL_p0 u cfg0) = u
   \<and> customTarget_p0 (SetTargetURL_p0 u cfg0) = True
   \<and> service_p0 (SetTargetURL_p0 u cfg0) = service_p0 cfg0
   \<and> interval_p0 (SetTargetURL_p0 u cfg0) = interval_p0 cfg0
   \<and> duration_p0 (SetTargetURL_p0 u cfg0) = duration_p0 cfg0
   \<and> profileTypes_p0 (SetTargetURL_p0 u cfg0) = profileTypes_p0 cfg0
   \<and> dumpToFile_p0 (SetTargetURL_p0 u cfg0) = dumpToFile_p0 cfg0
   \<and> logf_p0 (SetTargetURL_p0 u cfg0) = logf_p0 cfg0
   \<and> cancel_p0 (SetTargetURL_p0 u cfg0) = cancel_p0 cfg0
   \<and> out_p0 (SetTargetURL_p0 u cfg0) = out_p0 cfg0
   \<and> dumpToFile_p0 (WriteProfileToFile_p0 cfg0) = True
   \<and> targetURL_p0 (WriteProfileToFile_p0 cfg0) = targetURL_p0 cfg0
   \<and> customTarget_p0 (WriteProfileToFile_p0 cfg0) = customTarget_p0 cfg0
   \<and> service_p0 (WriteProfileToFile_p0 cfg0) = service_p0 cfg0
   \<and> interval_p0 (WriteProfileToFile_p0 cfg0) = interval_p0 cfg0
   \<and> duration_p0 (WriteProfileToFile_p0 cfg0) = duration_p0 cfg0
   \<and> profileTypes_p0 (WriteProfileToFile_p0 cfg0) = profileTypes_p0 cfg0
   \<and> logf_p0 (WriteProfileToFile_p0 cfg0) = logf_p0 cfg0
   \<and> cancel_p0 (WriteProfileToFile_p0 cfg0) = cancel_p0 cfg0
   \<and> out_p0 (WriteProfileToFile_p0 cfg0) = out_p0 cfg0"
  by (simp add: SetTargetURL_def WriteProfileToFile_def SetTargetURL_p0_def
      WriteProfileToFile_p0_def)

subsection \<open>The two variants agree\<close>

lemma set_defaultProfiles: "set defaultProfiles = {cpu, heap}"
  by (auto simp: defaultProfiles_def)

lemma set_defaultProfiles_p0: "set defaultProfiles_p0 = {cpu, heap}"
  by (auto simp: defaultProfiles_p0_def)

text \<open>
  C10. For every service name, \<^verbatim>\<open>NewProfilerConfig\<close> of \<^verbatim>\<open>src/profiler/config.go\<close>
  and of \<^verbatim>\<open>src/unnamed/part_000\<close> give the same service, interval, CPU duration, target
  URL, custom-target flag and file-output flag, and the same default enabled set
  \<open>{cpu, heap}\<close>; \<^verbatim>\<open>EnableAllProfiles\<close> gives the same seven-tag set in both. The two
  variants list the default types and the catalog in different orders.
\<close>

theorem variants_agree:
  "service (NewProfilerConfig s) = service_p0 (NewProfilerConfig_p0 s)
   \<and> interval (NewProfilerConfig s) = interval_p0 (NewProfilerConfig_p0 s)
   \<and> duration (NewProfilerConfig s) = duration_p0 (NewProfilerConfig_p0 s)
   \<and> targetURL (NewProfilerConfig s) = targetURL_p0 (NewProfilerConfig_p0 s)
   \<and> customTarget (NewProfilerConfig s) = customTarget_p0 (NewProfilerConfig_p0 s)
   \<and> dumpToFile (NewProfilerConfig s) = dumpToFile_p0 (NewProfilerConfig_p0 s)
   \<and> set (profileTypes (NewProfilerConfig s)) =
       set (profileTypes_p0 (NewProfilerConfig_p0 s))
   \<and> set (profileTypes (NewProfilerConfig s)) = {cpu, heap}
   \<and> set (profileTypes (EnableAllProfiles cfg)) =
       set (profileTypes_p0 (EnableAllProfiles_p0 cfg0))
   \<and> set (profileTypes (EnableAllProfiles cfg)) =
       {cpu, heap, block, mutex, goroutine, allocs, threadcreate}
   \<and> profileTypes (NewProfilerConfig s) \<noteq> profileTypes_p0 (NewProfilerConfig_p0 s)
   \<and> profileTypes (EnableAllProfiles cfg) \<noteq> profileTypes_p0 (EnableAllProfiles_p0 cfg0)"
proof -
  have "defaultProfiles \<noteq> defaultProfiles_p0"
    by (simp add: defaultProfiles_def defaultProfiles_p0_def tag_defs)
  moreover have "allProfiles \<noteq> allProfiles_p0"
    by (simp add: allProfiles_def allProfiles_p0_def tag_defs)
  ultimately show ?thesis
    by (simp add: NewProfilerConfig_def NewProfilerConfig_p0_def EnableAllProfiles_def
        EnableAllProfiles_p0_def set_defaultProfiles set_defaultProfiles_p0
        set_allProfiles set_allProfiles_p0)
qed

subsection \<open>Defaults of a new configuration\<close>

lemma sint_Second: "sint Second = 1000000000"
  by (simp add: Second_def)

lemma sint_seconds:
  assumes "- 9223372036 \<le> sint i" and "sint i \<le> 9223372036"
  shows "sint (i * Second) = sint i * 1000000000"
proof -
  have "sint (i * Second) = signed_take_bit 63 (sint i * 1000000000)"
    by (simp add: sint_word_ariths sint_Second word_size)
  also have "\<dots> = sint i * 1000000000"
    using assms by (intro signed_take_bit_int_eq_self) simp_all
  finally show ?thesis .
qed

text \<open>
  C1, as the specification states it, fails: a new configuration does not have file
  output as its output mode. With the service name \<open>api\<close> the documented defaults do not
  all hold, in either variant, because \<^verbatim>\<open>dumpToFile\<close> is false.
\<close>

theorem NewProfilerConfig_output_file_counterexample:
  "\<not> (interval (NewProfilerConfig ''api'') = 60 * Second
      \<and> duration (NewProfilerConfig ''api'') = 10 * Second
      \<and> set (profileTypes (NewProfilerConfig ''api'')) = {cpu, heap}
      \<and> dumpToFile (NewProfilerConfig ''api'') = True
      \<and> DefaultProfilesAge = 900 * Second
      \<and> targetURL (NewProfilerConfig ''api'') = ''http://127.0.0.1:8586/profile'')
   \<and> \<not> (interval_p0 (NewProfilerConfig_p0 ''api'') = 60 * Second
      \<and> duration_p0 (NewProfilerConfig_p0 ''api'') = 10 * Second
      \<and> set (profileTypes_p0 (NewProfilerConfig_p0 ''api'')) = {cpu, heap}
      \<and> dumpToFile_p0 (NewProfilerConfig_p0 ''api'') = True
      \<and> DefaultProfilesAge = 900 * Second
      \<and> targetURL_p0 (NewProfilerConfig_p0 ''api'') = ''http://127.0.0.1:8586/profile'')"
  by (simp add: NewProfilerConfig_def NewProfilerConfig_p0_def)

text \<open>
  C1, amended. For every service name \<open>s\<close>, \<^verbatim>\<open>NewProfilerConfig(s)\<close> returns a
  configuration with service \<open>s\<close>, collection interval 60 seconds, CPU profile duration
  10 seconds, enabled profile set \<open>{cpu, heap}\<close>, file output switched off (profiles go to
  the target address until \<^verbatim>\<open>WriteProfileToFile\<close> is called), and the target address
  \<^verbatim>\<open>http://127.0.0.1:8586/profile\<close>, not marked as custom. The retention age is not a
  field of the configuration: it is the package constant \<^verbatim>\<open>DefaultProfilesAge\<close>, 900
  seconds. This holds in both variants.
\<close>

theorem NewProfilerConfig_defaults:
  "service (NewProfilerConfig s) = s
   \<and> interval (NewProfilerConfig s) = 60 * Second
   \<and> sint (interval (NewProfilerConfig s)) = 60 * 1000000000
   \<and> duration (NewProfilerConfig s) = 10 * Second
   \<and> sint (duration (NewProfilerConfig s)) = 10 * 1000000000
   \<and> set (profileTypes (NewProfilerConfig s)) = {cpu, heap}
   \<and> dumpToFile (NewProfilerConfig s) = False
   \<and> targetURL (NewProfilerConfig s) = ''http://127.0.0.1:8586/profile''
   \<and> customTarget (NewProfilerConfig s) = False
   \<and> service_p0 (NewProfilerConfig_p0 s) = s
   \<and> interval_p0 (NewProfilerConfig_p0 s) = 60 * Second
   \<and> sint (interval_p0 (NewProfilerConfig_p0 s)) = 60 * 1000000000
   \<and> duration_p0 (NewProfilerConfig_p0 s) = 10 * Second
   \<and> sint (duration_p0 (NewProfilerConfig_p0 s)) = 10 * 1000000000
   \<and> set (profileTypes_p0 (NewProfilerConfig_p0 s)) = {cpu, heap}
   \<and> dumpToFile_p0 (NewProfilerConfig_p0 s) = False
   \<and> targetURL_p0 (NewProfilerConfig_p0 s) = ''http://127.0.0.1:8586/profile''
   \<and> customTarget_p0 (NewProfilerConfig_p0 s) = False
   \<and> DefaultProfilesAge = 900 * Second
   \<and> sint DefaultProfilesAge = 900 * 1000000000"
proof -
  have "sint (60 * Second) = 60 * 1000000000" "sint (10 * Second) = 10 * 1000000000"
    "sint (900 * Second) = 900 * 1000000000"
    by (simp_all add: Second_def)
  then show ?thesis
    by (simp add: NewProfilerConfig_def NewProfilerConfig_p0_def
        DefaultProfileInterval_def DefaultCPUProfileDuration_def DefaultProfilesAge_def
        DefaultAgentURL_def set_defaultProfiles set_defaultProfiles_p0)
qed

subsection \<open>No validation of settings\<close>

text \<open>
  C3, as the specification states it, fails: the empty service name, the interval 0 and
  the CPU duration of -1 second are all accepted and stored, in both variants.
\<close>

theorem invalid_settings_accepted_counterexample:
  "service (NewProfilerConfig '''') = ''''
   \<and> sint (interval (SetInterval 0 (NewProfilerConfig ''api''))) = 0
   \<and> sint (interval (SetInterval (- 1) (NewProfilerConfig ''api''))) = - 1000000000
   \<and> sint (duration (SetCPUProfileDuration 0 (NewProfilerConfig ''api''))) = 0
   \<and> sint (duration (SetCPUProfileDuration (- 1) (NewProfilerConfig ''api''))) = - 1000000000
   \<and> service_p0 (NewProfilerConfig_p0 '''') = ''''
   \<and> sint (interval_p0 (SetInterval_p0 0 (NewProfilerConfig_p0 ''api''))) = 0
   \<and> sint (interval_p0 (SetInterval_p0 (- 1) (NewProfilerConfig_p0 ''api''))) = - 1000000000
   \<and> sint (duration_p0 (SetCPUProfileDuration_p0 0 (NewProfilerConfig_p0 ''api''))) = 0
   \<and> sint (duration_p0 (SetCPUProfileDuration_p0 (- 1) (NewProfilerConfig_p0 ''api''))) =
       - 1000000000"
  by (simp add: NewProfilerConfig_def NewProfilerConfig_p0_def SetInterval_def
      SetCPUProfileDuration_def SetInterval_p0_def SetCPUProfileDuration_p0_def Second_def)

text \<open>
  C3, amended. The builder validates nothing and returns no error:
  \<^verbatim>\<open>NewProfilerConfig(s)\<close> stores every service name \<open>s\<close>, the empty one included, and
  for every \<open>i\<close> whose number of nanoseconds fits in 64 bits (\<open>|i| \<le> 9223372036\<close>),
  \<^verbatim>\<open>SetInterval(i)\<close> stores an interval of exactly \<open>i\<close> seconds and
  \<^verbatim>\<open>SetCPUProfileDuration(i)\<close> a CPU duration of exactly \<open>i\<close> seconds, zero and
  negative \<open>i\<close> included. This holds in both variants.
\<close>

theorem settings_stored_unchecked:
  "service (NewProfilerConfig s) = s
   \<and> service_p0 (NewProfilerConfig_p0 s) = s
   \<and> (- 9223372036 \<le> sint i \<and> sint i \<le> 9223372036 \<longrightarrow>
        sint (interval (SetInterval i cfg)) = sint i * 1000000000
      \<and> sint (duration (SetCPUProfileDuration i cfg)) = sint i * 1000000000
      \<and> sint (interval_p0 (SetInterval_p0 i cfg0)) = sint i * 1000000000
      \<and> sint (duration_p0 (SetCPUProfileDuration_p0 i cfg0)) = sint i * 1000000000)"
  by (simp add: NewProfilerConfig_def NewProfilerConfig_p0_def SetInterval_def
      SetCPUProfileDuration_def SetInterval_p0_def SetCPUProfileDuration_p0_def sint_seconds)

theorem settings_stored_unchecked_witness:
  "service (NewProfilerConfig '''') = ''''
   \<and> service_p0 (NewProfilerConfig_p0 '''') = ''''
   \<and> - 9223372036 \<le> sint (- 5 :: 64 word) \<and> sint (- 5 :: 64 word) \<le> 9223372036
   \<and> sint (interval (SetInterval (- 5) (NewProfilerConfig ''''))) = - 5000000000
   \<and> sint (duration (SetCPUProfileDuration (- 5) (NewProfilerConfig ''''))) = - 5000000000
   \<and> sint (interval_p0 (SetInterval_p0 (- 5) (NewProfilerConfig_p0 ''''))) = - 5000000000
   \<and> sint (duration_p0 (SetCPUProfileDuration_p0 (- 5) (NewProfilerConfig_p0 ''''))) =
       - 5000000000"
  using settings_stored_unchecked [where s = "''''" and i = "- 5"
      and cfg = "NewProfilerConfig ''''" and ?cfg0.0 = "NewProfilerConfig_p0 ''''"]
  by simp

subsection \<open>The output channel\<close>

lemma chan_send_all_fits:
  "length (chan_buf ch) + length xs \<le> chan_cap ch \<Longrightarrow>
   chan_send_all ch xs = Some (ch\<lparr>chan_buf := chan_buf ch @ xs\<rparr>)"
proof (induction xs arbitrary: ch)
  case Nil
  then show ?case by simp
next
  case (Cons x xs)
  from Cons.prems have "chan_send ch x = Some (ch\<lparr>chan_buf := chan_buf ch @ [x]\<rparr>)"
    by (simp add: chan_send_def)
  moreover from Cons.prems
  have "chan_send_all (ch\<lparr>chan_buf := chan_buf ch @ [x]\<rparr>) xs =
        Some (ch\<lparr>chan_buf := chan_buf ch @ [x]\<rparr>\<lparr>chan_buf := (chan_buf ch @ [x]) @ xs\<rparr>)"
    using Cons.IH [of "ch\<lparr>chan_buf := chan_buf ch @ [x]\<rparr>"] by simp
  ultimately show ?case by simp
qed

lemma chan_send_all_blocks:
  "length (chan_buf ch) \<le> chan_cap ch \<Longrightarrow>
   chan_cap ch < length (chan_buf ch) + length xs \<Longrightarrow> chan_send_all ch xs = None"
proof (induction xs arbitrary: ch)
  case Nil
  then show ?case by simp
next
  case (Cons x xs)
  show ?case
  proof (cases "length (chan_buf ch) < chan_cap ch")
    case True
    then have "chan_send ch x = Some (ch\<lparr>chan_buf := chan_buf ch @ [x]\<rparr>)"
      by (simp add: chan_send_def)
    moreover have "chan_send_all (ch\<lparr>chan_buf := chan_buf ch @ [x]\<rparr>) xs = None"
      using True Cons.prems by (intro Cons.IH) simp_all
    ultimately show ?thesis by simp
  next
    case False
    then show ?thesis by (simp add: chan_send_def)
  qed
qed

lemma chan_recv_oldest:
  "chan_recv (ch\<lparr>chan_buf := x # xs\<rparr>) = Some (x, ch\<lparr>chan_buf := xs\<rparr>)"
  by (simp add: chan_recv_def)

text \<open>
  C6. The profile output channel of a new configuration is an empty buffered channel of
  capacity \<open>len(allProfiles) + 1 = 8\<close>, in both variants. Sending a batch of artifacts to
  it goes through without blocking exactly when the batch has at most eight elements,
  and then the buffer holds the batch in the order sent: the artifacts of a round, at
  most one for each of the seven catalog types, always fit.
\<close>

theorem output_channel_capacity:
  "chan_cap (outProfile (NewProfilerConfig s)) = length allProfiles + 1
   \<and> chan_cap (outProfile (NewProfilerConfig s)) = 8
   \<and> chan_buf (outProfile (NewProfilerConfig s)) = []
   \<and> chan_cap (out_p0 (NewProfilerConfig_p0 s)) = length allProfiles_p0 + 1
   \<and> chan_cap (out_p0 (NewProfilerConfig_p0 s)) = 8
   \<and> chan_buf (out_p0 (NewProfilerConfig_p0 s)) = []
   \<and> chan_send_all (outProfile (NewProfilerConfig s)) xs =
       (if length xs \<le> length allProfiles + 1
        then Some \<lparr>chan_cap = 8, chan_buf = xs\<rparr> else None)
   \<and> chan_send_all (out_p0 (NewProfilerConfig_p0 s)) ys =
       (if length ys \<le> length allProfiles_p0 + 1
        then Some \<lparr>chan_cap = 8, chan_buf = ys\<rparr> else None)"
proof -
  have len: "length allProfiles = 7" "length allProfiles_p0 = 7"
    by (simp_all add: allProfiles_def allProfiles_p0_def)
  have a: "outProfile (NewProfilerConfig s) = \<lparr>chan_cap = 8, chan_buf = []\<rparr>"
    by (simp add: NewProfilerConfig_def make_chan_def len)
  have b: "out_p0 (NewProfilerConfig_p0 s) = \<lparr>chan_cap = 8, chan_buf = []\<rparr>"
    by (simp add: NewProfilerConfig_p0_def make_chan_def len)
  show ?thesis
    by (simp add: a b len chan_send_all_fits chan_send_all_blocks)
qed

theorem output_channel_capacity_witness:
  "chan_cap (outProfile (NewProfilerConfig ''api'')) = 8
   \<and> chan_cap (out_p0 (NewProfilerConfig_p0 ''api'')) = 8
   \<and> chan_send_all (outProfile (NewProfilerConfig ''api''))
       [\<lparr>Timestamp = 1700000000, Type = heap, PID = 4242, Service = ''api'',
          GoVersion = ''go1.13'', Hostname = ''host'', Data = [1, 2]\<rparr>,
        \<lparr>Timestamp = 1700000000, Type = cpu, PID = 4242, Service = ''api'',
          GoVersion = ''go1.13'', Hostname = ''host'', Data = [3]\<rparr>] =
       Some \<lparr>chan_cap = 8, chan_buf =
         [\<lparr>Timestamp = 1700000000, Type = heap, PID = 4242, Service = ''api'',
            GoVersion = ''go1.13'', Hostname = ''host'', Data = [1, 2]\<rparr>,
          \<lparr>Timestamp = 1700000000, Type = cpu, PID = 4242, Service = ''api'',
            GoVersion = ''go1.13'', Hostname = ''host'', Data = [3]\<rparr>]\<rparr>
   \<and> chan_send_all (out_p0 (NewProfilerConfig_p0 ''api''))
       [\<lparr>timestamp = 1700000000, profileType = cpu, processID = 4242,
          serviceName = ''api'', runtimeVersion = ''go1.13'', hostname = ''host'',
          payload = [3]\<rparr>] =
       Some \<lparr>chan_cap = 8, chan_buf =
         [\<lparr>timestamp = 1700000000, profileType = cpu, processID = 4242,
            serviceName = ''api'', runtimeVersion = ''go1.13'', hostname = ''host'',
            payload = [3]\<rparr>]\<rparr>"
  using output_channel_capacity [where s = "''api''"
      and xs = "[\<lparr>Timestamp = 1700000000, Type = heap, PID = 4242, Service = ''api'',
          GoVersion = ''go1.13'', Hostname = ''host'', Data = [1, 2]\<rparr>,
        \<lparr>Timestamp = 1700000000, Type = cpu, PID = 4242, Service = ''api'',
          GoVersion = ''go1.13'', Hostname = ''host'', Data = [3]\<rparr>]"
      and ys = "[\<lparr>timestamp = 1700000000, profileType = cpu, processID = 4242,
          serviceName = ''api'', runtimeVersion = ''go1.13'', hostname = ''host'',
          payload = [3]\<rparr>]"]
  by (simp add: allProfiles_def allProfiles_p0_def)

subsection \<open>File names of written profiles\<close>
















lemma digit_chars:
  "digit_char 0 = CHR ''0''" "digit_char (Suc 0) = CHR ''1''" "digit_char 2 = CHR ''2''"
  "digit_char 3 = CHR ''3''" "digit_char 4 = CHR ''4''" "digit_char 5 = CHR ''5''"
  "digit_char 6 = CHR ''6''" "digit_char 7 = CHR ''7''" "digit_char 8 = CHR ''8''"
  "digit_char 9 = CHR ''9''"
  by (simp_all add: digit_char_def char_of_def bit_0)

lemma profile_file_path_example:
  "profile_file_path ''api'' 1700000000 4242 cpu = ''./profiles/api_1700000000_4242.cpu''"
  by (simp add: profile_file_path_def profile_file_name_def DefaultProfilesDir_def
      show_int_def show_nat.simps digit_chars cpu_def)

lemma parse_file_name_example:
  "parse_file_name ''my_svc_1700000000_4242.heap'' =
     Some (''my_svc'', 1700000000, 4242, ''heap'')"
  by (simp add: parse_file_name_def read_int_def read_nat_def digit_val_def)






end
